theory Spec2Isabelle
  imports Main
begin

section \<open>JavaScript values used by the worker view\<close>

text \<open>
  The view parses its route segment with \<^verbatim>\<open>Number.parseInt\<close> and prints the result with
  \<^verbatim>\<open>toString\<close>. The only numbers that arise are integers and NaN. Integers are modelled
  as mathematical integers (exact for JavaScript below \<open>2^53\<close>; negative zero is zero);
  strings are lists of 8-bit characters.
\<close>

datatype js_number = NaN | Num int

text \<open>The white space and line terminators that \<^verbatim>\<open>parseInt\<close> skips at the start.\<close>

definition isWhiteSpace :: "char \<Rightarrow> bool" where
  "isWhiteSpace c =
     (c = CHR 0x09 \<or> c = CHR 0x0A \<or> c = CHR 0x0B \<or> c = CHR 0x0C \<or> c = CHR 0x0D \<or>
      c = CHR 0x20 \<or> c = CHR 0xA0)"

definition digitValue :: "char \<Rightarrow> nat option" where
  "digitValue c =
     (let n = (of_char c :: nat) in
      if 48 \<le> n \<and> n \<le> 57 then Some (n - 48)
      else if 97 \<le> n \<and> n \<le> 122 then Some (n - 87)
      else if 65 \<le> n \<and> n \<le> 90 then Some (n - 55)
      else None)"

definition isRadixDigit :: "nat \<Rightarrow> char \<Rightarrow> bool" where
  "isRadixDigit R c = (case digitValue c of Some d \<Rightarrow> d < R | None \<Rightarrow> False)"

definition mathInt :: "nat \<Rightarrow> string \<Rightarrow> nat" where
  "mathInt R Z =
     foldl (\<lambda>acc c. acc * R + (case digitValue c of Some d \<Rightarrow> d | None \<Rightarrow> 0)) 0 Z"

text \<open>
  \<^verbatim>\<open>Number.parseInt(string)\<close> with no radix argument: skip leading white space, read an
  optional sign, switch to radix 16 after a \<^verbatim>\<open>0x\<close> or \<^verbatim>\<open>0X\<close> prefix, read the longest run of
  digits of the radix and ignore whatever follows; NaN when that run is empty.
\<close>

definition parseInt :: "string \<Rightarrow> js_number" where
  "parseInt inputString =
     (let S = dropWhile isWhiteSpace inputString;
          sign = (if S \<noteq> [] \<and> hd S = CHR ''-'' then - 1 else 1 :: int);
          S1 = (if S \<noteq> [] \<and> (hd S = CHR ''+'' \<or> hd S = CHR ''-'') then tl S else S);
          stripPrefix = (length S1 \<ge> 2 \<and> (take 2 S1 = ''0x'' \<or> take 2 S1 = ''0X''));
          R = (if stripPrefix then 16 else 10);
          S2 = (if stripPrefix then drop 2 S1 else S1);
          Z = takeWhile (isRadixDigit R) S2
      in if Z = [] then NaN else Num (sign * int (mathInt R Z)))"

fun digits :: "nat \<Rightarrow> string" where
  "digits n =
     (if n < 10 then [''0123456789'' ! n]
      else digits (n div 10) @ [''0123456789'' ! (n mod 10)])"

text \<open>\<^verbatim>\<open>Number.prototype.toString()\<close> on NaN and on integers, in decimal.\<close>

definition Number_toString :: "js_number \<Rightarrow> string" where
  "Number_toString x =
     (case x of
        NaN \<Rightarrow> ''NaN''
      | Num n \<Rightarrow> (if n < 0 then CHR ''-'' # digits (nat (- n)) else digits (nat n)))"

section \<open>The data layer as the view sees it\<close>

text \<open>
  A query handle of the data layer: whether it has resolved, and the records it holds.
  The entity type \<open>'w\<close> (a worker) is owned by the data layer.
\<close>

record 'w data_collection =
  resolved :: bool
  array :: "'w list"

definition isResolved :: "'w data_collection \<Rightarrow> bool" where
  "isResolved q = resolved q"

text \<open>The requests the view hands to the data layer, with their parameters.\<close>

record worker_query =
  id_filter :: string

record builds_query =
  property :: "string list"
  workerid__eq :: js_number
  limit :: int
  order :: string

datatype data_query =
    Worker_getAll worker_query
  | Builder_getAll
  | Master_getAll
  | Build_getAll builds_query

section \<open>State and inputs of the component\<close>

text \<open>The two cells of local state: the builds fetch limit and the action-modal target.\<close>

record 'w view_state =
  buildsFetchLimit :: int
  workerForActions :: "'w option"

text \<open>
  What a render reads from its surroundings: the route parameter (absent or a string),
  the worker query handle, and the display properties returned by
  \<^verbatim>\<open>getBuildLinkDisplayProperties()\<close>.
\<close>

record 'w view_env =
  params_workerid :: "string option"
  workersQuery :: "'w data_collection"
  getBuildLinkDisplayProperties :: "string list"

text \<open>
  A top-bar action descriptor. Its callback, like every callback below, is the change it
  makes to the local state when invoked.
\<close>

record 'w TopbarAction =
  caption :: string
  variant :: string
  action :: "'w view_state \<Rightarrow> 'w view_state"

text \<open>
  The props the view gives to its three children. The type of the per-worker builds that
  a workers table can be given is owned by the table; the view only ever passes null.
\<close>

typedecl builds_by_worker

record 'w WorkersTable_props =
  workers :: "'w list"
  buildersQuery :: data_query
  mastersQuery :: data_query
  buildsForWorker :: "builds_by_worker option"
  onWorkerIconClick :: "'w \<Rightarrow> 'w view_state \<Rightarrow> 'w view_state"

record 'w WorkerActionsModal_props =
  worker :: 'w
  onClose :: "'w view_state \<Rightarrow> 'w view_state"

record 'w BuildsTable_props =
  builds :: data_query
  builders :: data_query
  fetchLimit :: int
  onLoadMore :: "'w view_state \<Rightarrow> 'w view_state"

text \<open>The elements the view renders; \<open>Fragment\<close> is the empty fragment.\<close>

datatype 'w element =
    WorkersTable "'w WorkersTable_props"
  | WorkerActionsModal "'w WorkerActionsModal_props"
  | Fragment
  | BuildsTable "'w BuildsTable_props"
  | Div string "'w element list"

text \<open>
  One render: the dependencies of the data accessor, the four requests in source order,
  the dependencies of the dynamic builds query, the list given to
  \<^verbatim>\<open>useTopbarActions\<close>, and the element tree returned.
\<close>

record 'w render_result =
  accessor_deps :: "js_number list"
  issued :: "data_query list"
  buildsQuery_deps :: "int list"
  topbar :: "'w TopbarAction list"
  dom :: "'w element"

section \<open>The component\<close>

text \<open>The route segment, or the empty string when it is absent, parsed as an integer.\<close>

definition workerid :: "'w view_env \<Rightarrow> js_number" where
  "workerid env = parseInt (case params_workerid env of None \<Rightarrow> [] | Some s \<Rightarrow> s)"

definition initialBuildsFetchLimit :: int where
  "initialBuildsFetchLimit = 100"

text \<open>
  Modelled from the spec: the limit returned at the first render by
  \<^verbatim>\<open>useLoadMoreItemsState(initialLimit, step)\<close> of the UI library, which is not among the
  sources. The spec says the limit starts at the initial value.
\<close>

definition useLoadMoreItemsState_initial :: "int \<Rightarrow> int \<Rightarrow> int" where
  "useLoadMoreItemsState_initial initialLimit step = initialLimit"

text \<open>
  Modelled from the spec: the load-more callback returned by
  \<^verbatim>\<open>useLoadMoreItemsState(initialLimit, step)\<close>, not among the sources. The spec says
  "load more" increases the limit by the increment size.
\<close>

definition useLoadMoreItemsState_onLoadMore :: "int \<Rightarrow> int \<Rightarrow> int \<Rightarrow> int" where
  "useLoadMoreItemsState_onLoadMore initialLimit step lim = lim + step"

text \<open>
  The local state at the first render, and the two ways it changes: the load-more callback
  returned by the pagination hook, and the setter of the action-modal target.
\<close>

definition initial_state :: "'w view_state" where
  "initial_state =
     \<lparr>buildsFetchLimit =
        useLoadMoreItemsState_initial initialBuildsFetchLimit initialBuildsFetchLimit,
      workerForActions = None\<rparr>"

definition onLoadMoreBuilds :: "'w view_state \<Rightarrow> 'w view_state" where
  "onLoadMoreBuilds s =
     s\<lparr>buildsFetchLimit :=
        useLoadMoreItemsState_onLoadMore initialBuildsFetchLimit initialBuildsFetchLimit
          (buildsFetchLimit s)\<rparr>"

definition setWorkerForActions :: "'w option \<Rightarrow> 'w view_state \<Rightarrow> 'w view_state" where
  "setWorkerForActions v s = s\<lparr>workerForActions := v\<rparr>"

text \<open>
  The four requests: the worker by id (the parsed id printed back as a string), all
  builders, all masters, and the builds of the worker under the current fetch limit.
\<close>

definition workersQuery_call :: "'w view_env \<Rightarrow> data_query" where
  "workersQuery_call env = Worker_getAll \<lparr>id_filter = Number_toString (workerid env)\<rparr>"

definition buildersQuery_call :: data_query where
  "buildersQuery_call = Builder_getAll"

definition mastersQuery_call :: data_query where
  "mastersQuery_call = Master_getAll"

definition buildsQuery_params :: "'w view_env \<Rightarrow> int \<Rightarrow> builds_query" where
  "buildsQuery_params env lim =
     \<lparr>property =
        [''owners'', ''workername'', ''branch'', ''revision''] @ getBuildLinkDisplayProperties env,
      workerid__eq = workerid env,
      limit = lim,
      order = ''-buildid''\<rparr>"

definition buildsQuery_call :: "'w view_env \<Rightarrow> 'w view_state \<Rightarrow> data_query" where
  "buildsQuery_call env s = Build_getAll (buildsQuery_params env (buildsFetchLimit s))"

text \<open>
  The list built before \<^verbatim>\<open>useTopbarActions\<close>: empty, then one entry pushed under the guard.
  The entry's callback stores element 0 of the array, which exists under the guard; the
  entry is clicked in the state it was rendered from, since the view is rendered again
  whenever the query changes.
\<close>

definition topBarActions :: "'w data_collection \<Rightarrow> 'w TopbarAction list" where
  "topBarActions q =
     (if isResolved q \<and> length (array q) \<ge> 1
      then [] @ [\<lparr>caption = ''Actions...'', variant = ''primary'',
                  action = setWorkerForActions (Some (array q ! 0))\<rparr>]
      else [])"

text \<open>The component: one render from the surroundings and the local state.\<close>

definition WorkerView :: "'w view_env \<Rightarrow> 'w view_state \<Rightarrow> 'w render_result" where
  "WorkerView env s =
     \<lparr>accessor_deps = [workerid env],
      issued = [workersQuery_call env, buildersQuery_call, mastersQuery_call,
                buildsQuery_call env s],
      buildsQuery_deps = [buildsFetchLimit s],
      topbar = topBarActions (workersQuery env),
      dom = Div ''container''
        [WorkersTable
           \<lparr>workers = array (workersQuery env),
            buildersQuery = buildersQuery_call,
            mastersQuery = mastersQuery_call,
            buildsForWorker = None,
            onWorkerIconClick = (\<lambda>w. setWorkerForActions (Some w))\<rparr>,
         (case workerForActions s of
            Some w \<Rightarrow> WorkerActionsModal \<lparr>worker = w, onClose = setWorkerForActions None\<rparr>
          | None \<Rightarrow> Fragment),
         BuildsTable
           \<lparr>builds = buildsQuery_call env s,
            builders = buildersQuery_call,
            fetchLimit = buildsFetchLimit s,
            onLoadMore = onLoadMoreBuilds\<rparr>]\<rparr>"

section \<open>Reading a render\<close>

fun children :: "'w element \<Rightarrow> 'w element list" where
  "children (Div c es) = es"
| "children e = []"

fun modal_of :: "'w element \<Rightarrow> 'w WorkerActionsModal_props list" where
  "modal_of (WorkerActionsModal p) = [p]"
| "modal_of e = []"

fun table_of :: "'w element \<Rightarrow> 'w WorkersTable_props list" where
  "table_of (WorkersTable p) = [p]"
| "table_of e = []"

fun element_kind :: "'w element \<Rightarrow> string" where
  "element_kind (WorkersTable p) = ''WorkersTable''"
| "element_kind (WorkerActionsModal p) = ''WorkerActionsModal''"
| "element_kind Fragment = ''Fragment''"
| "element_kind (BuildsTable p) = ''BuildsTable''"
| "element_kind (Div c es) = ''div''"

text \<open>The action modals and the workers tables among the children of the rendered container.\<close>

definition actionModals :: "'w render_result \<Rightarrow> 'w WorkerActionsModal_props list" where
  "actionModals r = concat (map modal_of (children (dom r)))"

definition workersTables :: "'w render_result \<Rightarrow> 'w WorkersTable_props list" where
  "workersTables r = concat (map table_of (children (dom r)))"

fun builds_table_of :: "'w element \<Rightarrow> 'w BuildsTable_props list" where
  "builds_table_of (BuildsTable p) = [p]"
| "builds_table_of e = []"

text \<open>The builds tables among the children of the rendered container.\<close>

definition buildsTables :: "'w render_result \<Rightarrow> 'w BuildsTable_props list" where
  "buildsTables r = concat (map builds_table_of (children (dom r)))"

text \<open>
  One "load more": the view is rendered and the \<open>onLoadMore\<close> callback of each builds
  table it rendered is invoked on the local state. A render without a builds table offers
  no such control, and the state stays as it is.
\<close>

definition loadMore :: "'w view_env \<Rightarrow> 'w view_state \<Rightarrow> 'w view_state" where
  "loadMore env s = fold onLoadMore (buildsTables (WorkerView env s)) s"

definition hasActionsEntry :: "'w TopbarAction list \<Rightarrow> bool" where
  "hasActionsEntry acts = (filter (\<lambda>a. caption a = ''Actions...'') acts \<noteq> [])"

fun builds_params_of :: "data_query \<Rightarrow> builds_query list" where
  "builds_params_of (Build_getAll p) = [p]"
| "builds_params_of q = []"

fun worker_params_of :: "data_query \<Rightarrow> worker_query list" where
  "worker_params_of (Worker_getAll p) = [p]"
| "worker_params_of q = []"

text \<open>The parameters of the builds requests and of the worker requests a render issues.\<close>

definition issuedWorkers :: "'w render_result \<Rightarrow> worker_query list" where
  "issuedWorkers r = concat (map worker_params_of (issued r))"

definition issuedBuilds :: "'w render_result \<Rightarrow> builds_query list" where
  "issuedBuilds r = concat (map builds_params_of (issued r))"

section \<open>Route registration at module load\<close>

record 'w route_config =
  route :: string
  group' :: string
  element :: "'w view_env \<Rightarrow> 'w view_state \<Rightarrow> 'w render_result"

text \<open>The application-wide tables the module and the component write to.\<close>

record 'w app =
  app_routes :: "'w route_config list"
  app_topbar :: "'w TopbarAction list"

text \<open>
  Modelled from the spec: \<^verbatim>\<open>registerRoute\<close> of the plugin framework's registration object is
  not among the sources. The spec describes a process-wide router table with no teardown,
  into which a registration puts one entry.
\<close>

definition registerRoute :: "'w route_config \<Rightarrow> 'w app \<Rightarrow> 'w app" where
  "registerRoute r reg = reg\<lparr>app_routes := app_routes reg @ [r]\<rparr>"

text \<open>
  Modelled from the spec: \<^verbatim>\<open>buildbotSetupPlugin\<close> of the plugin framework is not among the
  sources. The spec says the registration happens at plugin-setup time, one time: the
  callback is run once against the registration object.
\<close>

definition buildbotSetupPlugin :: "('w app \<Rightarrow> 'w app) \<Rightarrow> 'w app \<Rightarrow> 'w app" where
  "buildbotSetupPlugin callback reg = callback reg"

text \<open>
  Modelled from the spec: \<^verbatim>\<open>useTopbarActions\<close> of the UI library is not among the sources.
  The spec says a render mutates the top-bar registration: the list given replaces it.
\<close>

definition useTopbarActions :: "'w TopbarAction list \<Rightarrow> 'w app \<Rightarrow> 'w app" where
  "useTopbarActions acts a = a\<lparr>app_topbar := acts\<rparr>"

text \<open>The callback the module passes to the plugin framework, and the module's top level.\<close>

definition setup_callback :: "'w app \<Rightarrow> 'w app" where
  "setup_callback reg =
     registerRoute \<lparr>route = ''workers/:workerid'', group' = ''workers'', element = WorkerView\<rparr> reg"

definition module_load :: "'w app \<Rightarrow> 'w app" where
  "module_load a = buildbotSetupPlugin setup_callback a"

text \<open>The effect of one render on the application, and of a sequence of renders.\<close>

definition render_effect :: "'w view_env \<Rightarrow> 'w view_state \<Rightarrow> 'w app \<Rightarrow> 'w app" where
  "render_effect env s a = useTopbarActions (topbar (WorkerView env s)) a"

definition renders :: "('w view_env \<times> 'w view_state) list \<Rightarrow> 'w app \<Rightarrow> 'w app" where
  "renders rs a = fold (\<lambda>(env, s). render_effect env s) rs a"

definition empty_app :: "'w app" where
  "empty_app = \<lparr>app_routes = [], app_topbar = []\<rparr>"

section \<open>Concrete inputs\<close>

text \<open>
  A render's surroundings with workers named by numbers: the route parameter, whether the
  worker query has resolved, and its records.
\<close>

definition env_of :: "string option \<Rightarrow> bool \<Rightarrow> nat list \<Rightarrow> nat view_env" where
  "env_of p r ws =
     \<lparr>params_workerid = p, workersQuery = \<lparr>resolved = r, array = ws\<rparr>,
      getBuildLinkDisplayProperties = []\<rparr>"

section \<open>What a render contains\<close>

lemma accessor_deps_WorkerView: "accessor_deps (WorkerView env s) = [workerid env]"
  by (simp add: WorkerView_def)

lemma topbar_WorkerView: "topbar (WorkerView env s) = topBarActions (workersQuery env)"
  by (simp add: WorkerView_def)

lemma issuedBuilds_WorkerView:
  "issuedBuilds (WorkerView env s) = [buildsQuery_params env (buildsFetchLimit s)]"
  by (simp add: issuedBuilds_def WorkerView_def workersQuery_call_def buildersQuery_call_def
        mastersQuery_call_def buildsQuery_call_def)

lemma issuedWorkers_WorkerView:
  "issuedWorkers (WorkerView env s) = [\<lparr>id_filter = Number_toString (workerid env)\<rparr>]"
  by (simp add: issuedWorkers_def WorkerView_def workersQuery_call_def buildersQuery_call_def
        mastersQuery_call_def buildsQuery_call_def)

lemma children_WorkerView:
  "children (dom (WorkerView env s)) =
     [WorkersTable
        \<lparr>workers = array (workersQuery env), buildersQuery = buildersQuery_call,
         mastersQuery = mastersQuery_call, buildsForWorker = None,
         onWorkerIconClick = (\<lambda>w. setWorkerForActions (Some w))\<rparr>,
      (case workerForActions s of
         Some w \<Rightarrow> WorkerActionsModal \<lparr>worker = w, onClose = setWorkerForActions None\<rparr>
       | None \<Rightarrow> Fragment),
      BuildsTable
        \<lparr>builds = buildsQuery_call env s, builders = buildersQuery_call,
         fetchLimit = buildsFetchLimit s, onLoadMore = onLoadMoreBuilds\<rparr>]"
  by (simp add: WorkerView_def)

lemma actionModals_WorkerView:
  "actionModals (WorkerView env s) =
     (case workerForActions s of
        Some w \<Rightarrow> [\<lparr>worker = w, onClose = setWorkerForActions None\<rparr>]
      | None \<Rightarrow> [])"
  by (simp add: actionModals_def children_WorkerView split: option.split)

lemma workersTables_WorkerView:
  "workersTables (WorkerView env s) =
     [\<lparr>workers = array (workersQuery env), buildersQuery = buildersQuery_call,
       mastersQuery = mastersQuery_call, buildsForWorker = None,
       onWorkerIconClick = (\<lambda>w. setWorkerForActions (Some w))\<rparr>]"
  by (simp add: workersTables_def children_WorkerView split: option.split)

lemma buildsTables_WorkerView:
  "buildsTables (WorkerView env s) =
     [\<lparr>builds = buildsQuery_call env s, builders = buildersQuery_call,
       fetchLimit = buildsFetchLimit s, onLoadMore = onLoadMoreBuilds\<rparr>]"
  by (simp add: buildsTables_def children_WorkerView split: option.split)

lemma loadMore_onLoadMoreBuilds: "loadMore env s = onLoadMoreBuilds s"
  by (simp add: loadMore_def buildsTables_WorkerView)

lemma loadMore_funpow: "(loadMore env ^^ n) s = (onLoadMoreBuilds ^^ n) s"
  by (induction n) (simp_all add: loadMore_onLoadMoreBuilds)

lemma limit_after_load_more:
  "buildsFetchLimit ((onLoadMoreBuilds ^^ n) (initial_state :: 'w view_state)) = 100 + 100 * int n"
  by (induction n)
     (simp_all add: initial_state_def onLoadMoreBuilds_def initialBuildsFetchLimit_def
        useLoadMoreItemsState_initial_def useLoadMoreItemsState_onLoadMore_def)

lemma renders_routes: "app_routes (renders rs a) = app_routes a"
  by (induction rs arbitrary: a)
     (simp_all add: renders_def render_effect_def useTopbarActions_def split: prod.split)

section \<open>The top-bar action\<close>

text \<open>
  C1, as the code has it: the "Actions..." entry is in the list given to the top bar if
  and only if the worker query has resolved and its array holds at least one record. It
  is absent while the query is pending and when the array is empty; with two or more
  records it is present as well.
\<close>

theorem actions_entry_iff_resolved_nonempty:
  "hasActionsEntry (topbar (WorkerView env s)) =
     (isResolved (workersQuery env) \<and> 1 \<le> length (array (workersQuery env)))"
  by (simp add: hasActionsEntry_def topbar_WorkerView topBarActions_def)

text \<open>
  C1 as stated ("if and only if ... exactly one record") fails for a resolved query
  holding the two records 7 and 8: the entry is present, the array's length is not 1.
\<close>

theorem actions_entry_with_two_records:
  "\<not> (hasActionsEntry (topbar (WorkerView (env_of (Some ''42'') True [7, 8]) initial_state)) =
        (isResolved (workersQuery (env_of (Some ''42'') True [7, 8])) \<and>
         length (array (workersQuery (env_of (Some ''42'') True [7, 8]))) = 1))"
  by (simp add: hasActionsEntry_def topbar_WorkerView topBarActions_def env_of_def
        isResolved_def)

text \<open>
  C2: when the worker query has resolved with exactly one record, the top-bar list is one
  entry captioned "Actions..."; when it has resolved with no record, or has not resolved,
  the list is empty.
\<close>

theorem topbar_one_entry_or_empty:
  "(isResolved (workersQuery env) \<and> length (array (workersQuery env)) = 1 \<longrightarrow>
      map caption (topbar (WorkerView env s)) = [''Actions...'']) \<and>
   ((isResolved (workersQuery env) \<and> length (array (workersQuery env)) = 0) \<or>
     \<not> isResolved (workersQuery env) \<longrightarrow>
      topbar (WorkerView env s) = [])"
  by (simp add: topbar_WorkerView topBarActions_def)

theorem topbar_one_entry_or_empty_witness:
  "map caption (topbar (WorkerView (env_of (Some ''42'') True [7]) initial_state)) =
     [''Actions...''] \<and>
   topbar (WorkerView (env_of (Some ''42'') True []) initial_state) = [] \<and>
   topbar (WorkerView (env_of (Some ''42'') False []) initial_state) = []"
  using topbar_one_entry_or_empty [of "env_of (Some ''42'') True [7]" initial_state]
        topbar_one_entry_or_empty [of "env_of (Some ''42'') True []" initial_state]
        topbar_one_entry_or_empty [of "env_of (Some ''42'') False []" initial_state]
  by (simp add: env_of_def isResolved_def)

section \<open>Pagination of the builds\<close>

text \<open>
  C3: the builds fetch limit starts at 100. The view renders exactly one builds table; it
  is given the current limit, and invoking its \<open>onLoadMore\<close> callback (one "load more")
  adds exactly 100 to the limit and changes nothing else, changes the dependency list of
  the dynamic builds query and makes the next render issue the builds request with the
  new limit. After \<open>n\<close> invocations of "load more" through the rendered table the limit is
  \<open>100 + 100 * n\<close> and so is the limit of the request issued; the limit never decreases
  along the sequence, and it exceeds every bound.
\<close>

theorem load_more_limit:
  fixes env :: "'w view_env" and s :: "'w view_state"
  shows
  "buildsFetchLimit (initial_state :: 'w view_state) = 100 \<and>
   map fetchLimit (buildsTables (WorkerView env s)) = [buildsFetchLimit s] \<and>
   map (\<lambda>p. onLoadMore p s) (buildsTables (WorkerView env s)) =
     [s\<lparr>buildsFetchLimit := buildsFetchLimit s + 100\<rparr>] \<and>
   loadMore env s = s\<lparr>buildsFetchLimit := buildsFetchLimit s + 100\<rparr> \<and>
   buildsFetchLimit (loadMore env s) = buildsFetchLimit s + 100 \<and>
   buildsFetchLimit (onLoadMoreBuilds s) = buildsFetchLimit s + 100 \<and>
   map limit (issuedBuilds (WorkerView env (loadMore env s))) = [buildsFetchLimit s + 100] \<and>
   map limit (issuedBuilds (WorkerView env (onLoadMoreBuilds s))) = [buildsFetchLimit s + 100] \<and>
   buildsQuery_deps (WorkerView env (loadMore env s)) \<noteq> buildsQuery_deps (WorkerView env s) \<and>
   buildsQuery_deps (WorkerView env (onLoadMoreBuilds s)) \<noteq> buildsQuery_deps (WorkerView env s) \<and>
   buildsFetchLimit ((loadMore env ^^ n) (initial_state :: 'w view_state)) = 100 + 100 * int n \<and>
   buildsFetchLimit ((onLoadMoreBuilds ^^ n) (initial_state :: 'w view_state)) = 100 + 100 * int n \<and>
   map limit (issuedBuilds (WorkerView env ((loadMore env ^^ n) initial_state))) =
     [100 + 100 * int n] \<and>
   map limit (issuedBuilds (WorkerView env ((onLoadMoreBuilds ^^ n) initial_state))) =
     [100 + 100 * int n] \<and>
   (m \<le> n \<longrightarrow>
      buildsFetchLimit ((loadMore env ^^ m) (initial_state :: 'w view_state))
        \<le> buildsFetchLimit ((loadMore env ^^ n) (initial_state :: 'w view_state))) \<and>
   (m \<le> n \<longrightarrow>
      buildsFetchLimit ((onLoadMoreBuilds ^^ m) (initial_state :: 'w view_state))
        \<le> buildsFetchLimit ((onLoadMoreBuilds ^^ n) (initial_state :: 'w view_state))) \<and>
   (\<forall>B. \<exists>k. B < buildsFetchLimit ((loadMore env ^^ k) (initial_state :: 'w view_state))) \<and>
   (\<forall>B. \<exists>k. B < buildsFetchLimit ((onLoadMoreBuilds ^^ k) (initial_state :: 'w view_state)))"
proof -
  have cb: "onLoadMoreBuilds s = s\<lparr>buildsFetchLimit := buildsFetchLimit s + 100\<rparr>"
    by (simp add: onLoadMoreBuilds_def initialBuildsFetchLimit_def
          useLoadMoreItemsState_onLoadMore_def)
  have step: "buildsFetchLimit (onLoadMoreBuilds s) = buildsFetchLimit s + 100"
    by (simp add: cb)
  have start: "buildsFetchLimit (initial_state :: 'w view_state) = 100"
    using limit_after_load_more [of 0] by simp
  have given: "map fetchLimit (buildsTables (WorkerView env s)) = [buildsFetchLimit s]"
    by (simp add: buildsTables_WorkerView)
  have invoked: "map (\<lambda>p. onLoadMore p s) (buildsTables (WorkerView env s)) =
     [s\<lparr>buildsFetchLimit := buildsFetchLimit s + 100\<rparr>]"
    by (simp add: buildsTables_WorkerView cb)
  have wired: "loadMore env s = s\<lparr>buildsFetchLimit := buildsFetchLimit s + 100\<rparr>"
    by (simp add: loadMore_onLoadMoreBuilds cb)
  have wstep: "buildsFetchLimit (loadMore env s) = buildsFetchLimit s + 100"
    by (simp add: loadMore_onLoadMoreBuilds step)
  have issued1:
    "map limit (issuedBuilds (WorkerView env (onLoadMoreBuilds s))) = [buildsFetchLimit s + 100]"
    by (simp add: issuedBuilds_WorkerView buildsQuery_params_def step)
  have wissued1:
    "map limit (issuedBuilds (WorkerView env (loadMore env s))) = [buildsFetchLimit s + 100]"
    by (simp add: loadMore_onLoadMoreBuilds issued1)
  have deps:
    "buildsQuery_deps (WorkerView env (onLoadMoreBuilds s)) \<noteq> buildsQuery_deps (WorkerView env s)"
    by (simp add: WorkerView_def step)
  have wdeps:
    "buildsQuery_deps (WorkerView env (loadMore env s)) \<noteq> buildsQuery_deps (WorkerView env s)"
    by (simp add: loadMore_onLoadMoreBuilds deps)
  have wlimit: "\<And>k. buildsFetchLimit ((loadMore env ^^ k) (initial_state :: 'w view_state)) =
      100 + 100 * int k"
    by (simp add: loadMore_funpow limit_after_load_more)
  have issuedn:
    "map limit (issuedBuilds (WorkerView env ((onLoadMoreBuilds ^^ n) initial_state))) =
       [100 + 100 * int n]"
    by (simp add: issuedBuilds_WorkerView buildsQuery_params_def limit_after_load_more)
  have wissuedn:
    "map limit (issuedBuilds (WorkerView env ((loadMore env ^^ n) initial_state))) =
       [100 + 100 * int n]"
    by (simp add: loadMore_funpow issuedn)
  have mono: "m \<le> n \<longrightarrow>
      buildsFetchLimit ((onLoadMoreBuilds ^^ m) (initial_state :: 'w view_state))
        \<le> buildsFetchLimit ((onLoadMoreBuilds ^^ n) (initial_state :: 'w view_state))"
    by (simp add: limit_after_load_more)
  have wmono: "m \<le> n \<longrightarrow>
      buildsFetchLimit ((loadMore env ^^ m) (initial_state :: 'w view_state))
        \<le> buildsFetchLimit ((loadMore env ^^ n) (initial_state :: 'w view_state))"
    by (simp add: wlimit)
  have unbounded:
    "\<forall>B. \<exists>k. B < buildsFetchLimit ((onLoadMoreBuilds ^^ k) (initial_state :: 'w view_state))"
  proof
    fix B :: int
    have "B < 100 + 100 * int (nat B)" by simp
    then show "\<exists>k. B < buildsFetchLimit ((onLoadMoreBuilds ^^ k) (initial_state :: 'w view_state))"
      unfolding limit_after_load_more by (rule exI)
  qed
  have wunbounded:
    "\<forall>B. \<exists>k. B < buildsFetchLimit ((loadMore env ^^ k) (initial_state :: 'w view_state))"
    using unbounded by (simp add: loadMore_funpow)
  from start given invoked wired wstep step wissued1 issued1 wdeps deps wlimit [of n]
    limit_after_load_more [of n] wissuedn issuedn wmono mono wunbounded unbounded
  show ?thesis by (intro conjI)
qed

theorem load_more_limit_witness:
  "buildsFetchLimit
     ((loadMore (env_of (Some ''42'') True [7]) ^^ 1) (initial_state :: nat view_state)) = 200 \<and>
   buildsFetchLimit
     ((loadMore (env_of (Some ''42'') True [7]) ^^ 2) (initial_state :: nat view_state)) = 300 \<and>
   map limit (issuedBuilds (WorkerView (env_of (Some ''42'') True [7])
     ((loadMore (env_of (Some ''42'') True [7]) ^^ 2) initial_state))) = [300] \<and>
   (1::nat) \<le> 2 \<and>
   buildsFetchLimit
     ((loadMore (env_of (Some ''42'') True [7]) ^^ 1) (initial_state :: nat view_state))
     \<le> buildsFetchLimit
     ((loadMore (env_of (Some ''42'') True [7]) ^^ 2) (initial_state :: nat view_state)) \<and>
   buildsFetchLimit ((onLoadMoreBuilds ^^ 1) (initial_state :: nat view_state))
     \<le> buildsFetchLimit ((onLoadMoreBuilds ^^ 2) (initial_state :: nat view_state))"
  using load_more_limit [where env = "env_of (Some ''42'') True [7]" and n = 1 and m = 0]
        load_more_limit [where env = "env_of (Some ''42'') True [7]" and n = 2 and m = 1]
  by simp

section \<open>The action modal\<close>

text \<open>
  C4: clicking the "Actions..." entry stores element 0 of the worker query's array as the
  action-modal target (the sole worker when the array is a single record); the modal's
  close control stores none; an action modal is among the rendered children exactly when
  the target is not none, it shows the target, and there is never more than one.
\<close>

theorem action_modal_target:
  fixes env :: "'w view_env" and s t :: "'w view_state"
  shows
  "(isResolved (workersQuery env) \<and> 1 \<le> length (array (workersQuery env)) \<longrightarrow>
      map (\<lambda>a. action a t) (topbar (WorkerView env s)) =
        [t\<lparr>workerForActions := Some (array (workersQuery env) ! 0)\<rparr>]) \<and>
   (isResolved (workersQuery env) \<and> array (workersQuery env) = [w] \<longrightarrow>
      map (\<lambda>a. action a t) (topbar (WorkerView env s)) = [t\<lparr>workerForActions := Some w\<rparr>]) \<and>
   map (\<lambda>p. onClose p t) (actionModals (WorkerView env s)) =
     (case workerForActions s of None \<Rightarrow> [] | Some v \<Rightarrow> [t\<lparr>workerForActions := None\<rparr>]) \<and>
   map worker (actionModals (WorkerView env s)) =
     (case workerForActions s of None \<Rightarrow> [] | Some v \<Rightarrow> [v]) \<and>
   (actionModals (WorkerView env s) \<noteq> []) = (workerForActions s \<noteq> None) \<and>
   length (actionModals (WorkerView env s)) \<le> 1"
proof -
  have click: "isResolved (workersQuery env) \<and> 1 \<le> length (array (workersQuery env)) \<longrightarrow>
      map (\<lambda>a. action a t) (topbar (WorkerView env s)) =
        [t\<lparr>workerForActions := Some (array (workersQuery env) ! 0)\<rparr>]"
    by (simp add: topbar_WorkerView topBarActions_def setWorkerForActions_def)
  have sole: "isResolved (workersQuery env) \<and> array (workersQuery env) = [w] \<longrightarrow>
      map (\<lambda>a. action a t) (topbar (WorkerView env s)) = [t\<lparr>workerForActions := Some w\<rparr>]"
    by (simp add: topbar_WorkerView topBarActions_def setWorkerForActions_def)
  have close: "map (\<lambda>p. onClose p t) (actionModals (WorkerView env s)) =
     (case workerForActions s of None \<Rightarrow> [] | Some v \<Rightarrow> [t\<lparr>workerForActions := None\<rparr>])"
    by (simp add: actionModals_WorkerView setWorkerForActions_def split: option.split)
  have target: "map worker (actionModals (WorkerView env s)) =
     (case workerForActions s of None \<Rightarrow> [] | Some v \<Rightarrow> [v])"
    by (simp add: actionModals_WorkerView split: option.split)
  have shown: "(actionModals (WorkerView env s) \<noteq> []) = (workerForActions s \<noteq> None)"
    by (simp add: actionModals_WorkerView split: option.split)
  have one: "length (actionModals (WorkerView env s)) \<le> 1"
    by (simp add: actionModals_WorkerView split: option.split)
  from click sole close target shown one show ?thesis by blast
qed

theorem action_modal_target_witness:
  "map (\<lambda>a. workerForActions (action a initial_state))
     (topbar (WorkerView (env_of (Some ''42'') True [7]) initial_state)) = [Some 7] \<and>
   map (\<lambda>a. workerForActions (action a initial_state))
     (topbar (WorkerView (env_of (Some ''42'') True [7, 8]) initial_state)) = [Some 7]"
proof -
  have r: "isResolved (workersQuery (env_of (Some ''42'') True [7]))"
          "isResolved (workersQuery (env_of (Some ''42'') True [7, 8]))"
    by (simp_all add: env_of_def isResolved_def)
  have a: "array (workersQuery (env_of (Some ''42'') True [7])) = [7]"
          "array (workersQuery (env_of (Some ''42'') True [7, 8])) = [7, 8]"
    by (simp_all add: env_of_def)
  have "map (\<lambda>a. action a initial_state)
          (topbar (WorkerView (env_of (Some ''42'') True [7]) initial_state)) =
        [initial_state\<lparr>workerForActions := Some 7\<rparr>]"
    using r(1) a(1)
      action_modal_target [where env = "env_of (Some ''42'') True [7]" and w = 7
        and t = initial_state and s = initial_state]
    by blast
  moreover have "map (\<lambda>a. action a initial_state)
          (topbar (WorkerView (env_of (Some ''42'') True [7, 8]) initial_state)) =
        [initial_state\<lparr>workerForActions := Some 7\<rparr>]"
    using r(2) a(2)
      action_modal_target [where env = "env_of (Some ''42'') True [7, 8]" and w = 7
        and t = initial_state and s = initial_state]
    by simp
  ultimately show ?thesis
    by (simp add: list_eq_iff_nth_eq)
qed

section \<open>The requests and their parameters\<close>

text \<open>
  C5: the worker request's id filter is the parsed route segment printed back as a
  string, the builds request's \<open>workerid__eq\<close> is the parsed number itself; for the route
  parameter "42" these are the string "42" and the number 42.
\<close>

theorem route_42_filters:
  "map id_filter (issuedWorkers (WorkerView env s)) = [Number_toString (workerid env)] \<and>
   map workerid__eq (issuedBuilds (WorkerView env s)) = [workerid env] \<and>
   (params_workerid env = Some ''42'' \<longrightarrow>
      map id_filter (issuedWorkers (WorkerView env s)) = [''42''] \<and>
      map workerid__eq (issuedBuilds (WorkerView env s)) = [Num 42])"
proof -
  have "parseInt ''42'' = Num 42" by code_simp
  moreover have "Number_toString (Num 42) = ''42''" by code_simp
  ultimately show ?thesis
    by (simp add: issuedWorkers_WorkerView issuedBuilds_WorkerView buildsQuery_params_def
          workerid_def)
qed

theorem route_42_filters_witness:
  "map id_filter (issuedWorkers (WorkerView (env_of (Some ''42'') True [7]) initial_state)) =
     [''42''] \<and>
   map workerid__eq (issuedBuilds (WorkerView (env_of (Some ''42'') True [7]) initial_state)) =
     [Num 42]"
proof -
  have h: "params_workerid (env_of (Some ''42'') True [7]) = Some ''42''"
    by (simp add: env_of_def)
  from h route_42_filters [of "env_of (Some ''42'') True [7]" initial_state]
  show ?thesis by blast
qed

text \<open>
  C6: whatever the fetch limit, the builds request is ordered by "-buildid" and carries
  the current limit; between any two local states of the view (in particular before and
  after any number of "load more") the order, the property list and the \<open>workerid__eq\<close>
  filter are the same, and the request differs in its limit only.
\<close>

theorem builds_query_frame:
  "map order (issuedBuilds (WorkerView env s)) = [''-buildid''] \<and>
   map limit (issuedBuilds (WorkerView env s)) = [buildsFetchLimit s] \<and>
   map order (issuedBuilds (WorkerView env s')) = map order (issuedBuilds (WorkerView env s)) \<and>
   map property (issuedBuilds (WorkerView env s')) =
     map property (issuedBuilds (WorkerView env s)) \<and>
   map workerid__eq (issuedBuilds (WorkerView env s')) =
     map workerid__eq (issuedBuilds (WorkerView env s)) \<and>
   issuedBuilds (WorkerView env s') =
     map (\<lambda>p. p\<lparr>limit := buildsFetchLimit s'\<rparr>) (issuedBuilds (WorkerView env s))"
  by (simp add: issuedBuilds_WorkerView buildsQuery_params_def)

text \<open>
  C7: a missing route segment parses to NaN; whenever the parse gives NaN, the accessor
  and both requests receive it as it is (the worker filter is the string "NaN", the
  builds filter is NaN); and the rendered children are the workers table, the modal slot
  and the builds table whatever the parse gave: no error element, no other path.
\<close>

theorem nan_workerid_passed_through:
  "(params_workerid env = None \<longrightarrow> workerid env = NaN) \<and>
   (workerid env = NaN \<longrightarrow>
      accessor_deps (WorkerView env s) = [NaN] \<and>
      map id_filter (issuedWorkers (WorkerView env s)) = [''NaN''] \<and>
      map workerid__eq (issuedBuilds (WorkerView env s)) = [NaN]) \<and>
   map element_kind (children (dom (WorkerView env s))) =
     [''WorkersTable'',
      (case workerForActions s of None \<Rightarrow> ''Fragment'' | Some w \<Rightarrow> ''WorkerActionsModal''),
      ''BuildsTable'']"
proof -
  have "parseInt [] = NaN" by (simp add: parseInt_def)
  then have a: "params_workerid env = None \<longrightarrow> workerid env = NaN"
    by (simp add: workerid_def)
  have b: "workerid env = NaN \<longrightarrow>
      accessor_deps (WorkerView env s) = [NaN] \<and>
      map id_filter (issuedWorkers (WorkerView env s)) = [''NaN''] \<and>
      map workerid__eq (issuedBuilds (WorkerView env s)) = [NaN]"
    by (simp add: issuedWorkers_WorkerView issuedBuilds_WorkerView buildsQuery_params_def
          Number_toString_def accessor_deps_WorkerView)
  have c: "map element_kind (children (dom (WorkerView env s))) =
     [''WorkersTable'',
      (case workerForActions s of None \<Rightarrow> ''Fragment'' | Some w \<Rightarrow> ''WorkerActionsModal''),
      ''BuildsTable'']"
    by (simp add: children_WorkerView split: option.split)
  from a b c show ?thesis by blast
qed

theorem nan_workerid_passed_through_witness:
  "workerid (env_of None True [7]) = NaN \<and>
   map id_filter (issuedWorkers (WorkerView (env_of None True [7]) initial_state)) = [''NaN''] \<and>
   map workerid__eq (issuedBuilds (WorkerView (env_of None True [7]) initial_state)) = [NaN] \<and>
   workerid (env_of (Some ''abc'') True [7]) = NaN \<and>
   map id_filter (issuedWorkers (WorkerView (env_of (Some ''abc'') True [7]) initial_state)) =
     [''NaN''] \<and>
   map workerid__eq (issuedBuilds (WorkerView (env_of (Some ''abc'') True [7]) initial_state)) =
     [NaN]"
proof -
  have n: "params_workerid (env_of None True [7]) = None" by (simp add: env_of_def)
  have "parseInt ''abc'' = NaN" by code_simp
  then have p: "workerid (env_of (Some ''abc'') True [7]) = NaN"
    by (simp add: workerid_def env_of_def)
  from n p nan_workerid_passed_through [of "env_of None True [7]" initial_state]
    nan_workerid_passed_through [of "env_of (Some ''abc'') True [7]" initial_state]
  show ?thesis by blast
qed

section \<open>Route registration\<close>

text \<open>
  C8: loading the module adds exactly one route to the router table, with path
  "workers/:workerid" and group "workers"; starting from an empty table it is the only
  route; and any sequence of renders of the view after the load leaves the table as the
  load left it.
\<close>

theorem module_registers_one_route:
  fixes a :: "'w app"
  shows
  "map (\<lambda>r. (route r, group' r)) (app_routes (renders rs (module_load a))) =
     map (\<lambda>r. (route r, group' r)) (app_routes a) @ [(''workers/:workerid'', ''workers'')] \<and>
   map (\<lambda>r. (route r, group' r)) (app_routes (renders rs (module_load (empty_app :: 'w app)))) =
     [(''workers/:workerid'', ''workers'')] \<and>
   length (app_routes (renders rs (module_load a))) = length (app_routes a) + 1 \<and>
   app_routes (renders rs (module_load a)) = app_routes (module_load a)"
  by (simp add: renders_routes module_load_def buildbotSetupPlugin_def setup_callback_def
        registerRoute_def empty_app_def)

section \<open>The workers table\<close>

text \<open>
  C9: the workers table is given the worker query's array, and its icon callback stores
  the clicked worker as the action-modal target, whatever the state of the worker query
  and of the top bar; the next render shows the modal for that worker. The clicked worker
  need not be element 0 of the array: with the records 7 and 8, clicking 8 targets 8,
  which the top-bar entry does not.
\<close>

theorem worker_icon_click_targets_clicked:
  fixes env :: "'w view_env" and s t :: "'w view_state"
  shows
  "map workers (workersTables (WorkerView env s)) = [array (workersQuery env)] \<and>
   map (\<lambda>p. onWorkerIconClick p w t) (workersTables (WorkerView env s)) =
     [t\<lparr>workerForActions := Some w\<rparr>] \<and>
   map worker (actionModals (WorkerView env (t\<lparr>workerForActions := Some w\<rparr>))) = [w] \<and>
   (\<exists>(e :: nat view_env) (u :: nat view_state) v.
      isResolved (workersQuery e) \<and> v \<in> set (array (workersQuery e)) \<and>
      v \<noteq> array (workersQuery e) ! 0 \<and>
      map (\<lambda>p. workerForActions (onWorkerIconClick p v u)) (workersTables (WorkerView e u)) =
        [Some v] \<and>
      map (\<lambda>a. workerForActions (action a u)) (topbar (WorkerView e u)) \<noteq> [Some v])"
proof -
  have tbl: "map workers (workersTables (WorkerView env s)) = [array (workersQuery env)]"
    by (simp add: workersTables_WorkerView)
  have click: "map (\<lambda>p. onWorkerIconClick p w t) (workersTables (WorkerView env s)) =
     [t\<lparr>workerForActions := Some w\<rparr>]"
    by (simp add: workersTables_WorkerView setWorkerForActions_def)
  have modal: "map worker (actionModals (WorkerView env (t\<lparr>workerForActions := Some w\<rparr>))) = [w]"
    by (simp add: actionModals_WorkerView)
  have "isResolved (workersQuery (env_of (Some ''42'') True [7, 8])) \<and>
      8 \<in> set (array (workersQuery (env_of (Some ''42'') True [7, 8]))) \<and>
      8 \<noteq> array (workersQuery (env_of (Some ''42'') True [7, 8])) ! 0 \<and>
      map (\<lambda>p. workerForActions (onWorkerIconClick p 8 initial_state))
        (workersTables (WorkerView (env_of (Some ''42'') True [7, 8]) initial_state)) = [Some 8] \<and>
      map (\<lambda>a. workerForActions (action a initial_state))
        (topbar (WorkerView (env_of (Some ''42'') True [7, 8]) initial_state)) \<noteq> [Some 8]"
    by (simp add: workersTables_WorkerView setWorkerForActions_def env_of_def isResolved_def
          topbar_WorkerView topBarActions_def)
  then have other: "\<exists>(e :: nat view_env) (u :: nat view_state) v.
      isResolved (workersQuery e) \<and> v \<in> set (array (workersQuery e)) \<and>
      v \<noteq> array (workersQuery e) ! 0 \<and>
      map (\<lambda>p. workerForActions (onWorkerIconClick p v u)) (workersTables (WorkerView e u)) =
        [Some v] \<and>
      map (\<lambda>a. workerForActions (action a u)) (topbar (WorkerView e u)) \<noteq> [Some v]"
    apply -
    apply (rule exI [where x = "env_of (Some ''42'') True [7, 8]"])
    apply (rule exI [where x = initial_state])
    apply (rule exI [where x = 8])
    apply assumption
    done
  from tbl click modal other show ?thesis by blast
qed

text \<open>
  C10: on every render, whatever the route parameter, the query state and the local
  state, the one workers table rendered is given \<open>buildsForWorker\<close> = null.
\<close>

theorem workers_table_buildsForWorker_null:
  "map buildsForWorker (workersTables (WorkerView env s)) = [None] \<and>
   length (workersTables (WorkerView env s)) = 1"
  by (simp add: workersTables_WorkerView)

end
